theory Spec2Isabelle
  imports Main "HOL-Library.Word"
begin

section \<open>Per-room end-to-end encryption client\<close>

text \<open>
  A shallow embedding of the class \<open>Cipher\<close> and of the class \<open>E2EERoomClient\<close>.
  JavaScript strings are modelled as \<open>string\<close> (a list of code units; the code only
  slices, concatenates and compares them), a \<open>Uint8Array\<close> as a list of 8-bit words,
  \<open>undefined\<close> as \<open>None\<close>, a rejected promise or a thrown exception as \<open>Inl\<close> of
  an error value.
\<close>

subsection \<open>Values, errors\<close>

type_synonym bytes = "8 word list"

text \<open>
  The values \<open>EJSON.parse\<close> and \<open>JSON.parse\<close> can return. A \<open>Date\<close> is its number of
  milliseconds since the epoch; an object is the list of its properties, in order.
\<close>

datatype ejson =
    EJNull
  | EJBool bool
  | EJNumber int
  | EJString string
  | EJDate int
  | EJBinary bytes
  | EJArray "ejson list"
  | EJObject "(string \<times> ejson) list"

text \<open>
  \<open>NotDecryptable\<close> is \<open>new Error('input is not decryptable')\<close>, \<open>MalformedPlaintext\<close>
  is \<open>new Error('unknown decrypted message format')\<close>; \<open>External\<close> is an error
  thrown by a collaborator (the crypto subsystem, a parser, an RPC), with its message.
\<close>

datatype error = NotDecryptable | MalformedPlaintext | External string

text \<open>An opaque \<open>CryptoKey\<close> handle.\<close>

datatype crypto_key = CryptoKey nat

text \<open>The type \<open>EncryptableMessage\<close>: fields \<open>_id\<close>, \<open>text\<close>, \<open>userId\<close>, \<open>ts\<close>.\<close>

record encryptable_message =
  em_id :: string
  em_text :: string
  em_userId :: string
  em_ts :: int

text \<open>The JavaScript object an \<open>EncryptableMessage\<close> is, as an EJSON value.\<close>

definition message_object :: "encryptable_message \<Rightarrow> ejson" where
  "message_object m =
     EJObject [(''_id'', EJString (em_id m)), (''text'', EJString (em_text m)),
               (''userId'', EJString (em_userId m)), (''ts'', EJDate (em_ts m))]"

text \<open>A participant (\<open>Serialized<IUser>\<close>): \<open>_id\<close> and \<open>e2e.public_key\<close> when \<open>e2e\<close> is set.\<close>

record participant =
  user_id :: string
  user_e2e_public_key :: "string option"

subsection \<open>Collaborators\<close>

text \<open>
  The functions imported from \<open>meteor/base64\<close>, \<open>meteor/ejson\<close>, \<open>./helpers\<close>, the Web
  platform (\<open>TextEncoder\<close>, \<open>TextDecoder\<close>, \<open>JSON\<close>) and the RPC client are not part
  of the class; they are parameters of the model. A function that can throw or reject
  returns \<open>error + _\<close>. \<open>generateAESKey\<close> and the RPC fields are the outcome of the call
  in the run under consideration; \<open>date_now\<close> is \<open>Date.now()\<close> and \<open>serverOffset\<close> is
  \<open>TimeSync.serverOffset()\<close>, \<open>None\<close> when it is \<open>NaN\<close>.
\<close>

record externals =
  text_encode :: "string \<Rightarrow> bytes"
  text_decode :: "bytes \<Rightarrow> string"
  ejson_stringify :: "ejson \<Rightarrow> string"
  ejson_parse :: "string \<Rightarrow> error + ejson"
  json_stringify :: "ejson \<Rightarrow> string"
  json_parse :: "string \<Rightarrow> error + ejson"
  base64_encode :: "bytes \<Rightarrow> string"
  base64_decode :: "string \<Rightarrow> error + bytes"
  encryptAES :: "bytes \<Rightarrow> crypto_key \<Rightarrow> bytes \<Rightarrow> error + bytes"
  decryptAES :: "bytes \<Rightarrow> crypto_key \<Rightarrow> bytes \<Rightarrow> error + bytes"
  encryptRSA :: "crypto_key \<Rightarrow> bytes \<Rightarrow> error + bytes"
  decryptRSA :: "crypto_key \<Rightarrow> bytes \<Rightarrow> error + bytes"
  generateAESKey :: "error + crypto_key"
  exportJWKKey :: "crypto_key \<Rightarrow> error + ejson"
  importAESKey :: "ejson \<Rightarrow> error + crypto_key"
  importRSAKey :: "ejson \<Rightarrow> error + crypto_key"
  fromBufferToString :: "bytes \<Rightarrow> string"
  fromStringToBuffer :: "string \<Rightarrow> bytes"
  post_setRoomKeyID :: "string \<Rightarrow> string \<Rightarrow> error + unit"
  get_usersOfRoomWithoutKey :: "string \<Rightarrow> error + participant list"
  post_updateGroupKey :: "string \<Rightarrow> string \<Rightarrow> string \<Rightarrow> error + unit"
  date_now :: int
  serverOffset :: "int option"

text \<open>
  Modelled from the spec: \<open>joinVectorAndEncryptedData\<close> of \<open>./helpers\<close> is missing from
  the sources. The spec gives the output of encrypt as "keyID ++ base64(nonce ++
  ciphertext)".
\<close>

definition joinVectorAndEncryptedData :: "bytes \<Rightarrow> bytes \<Rightarrow> bytes" where
  "joinVectorAndEncryptedData vector encryptedData = vector @ encryptedData"

text \<open>
  Modelled from the spec: \<open>splitVectorAndEncryptedData\<close> of \<open>./helpers\<close> is missing from
  the sources. The spec has decrypt "split nonce (first 16 bytes) from ciphertext".
\<close>

definition splitVectorAndEncryptedData :: "bytes \<Rightarrow> bytes \<times> bytes" where
  "splitVectorAndEncryptedData cipherText = (take 16 cipherText, drop 16 cipherText)"

subsection \<open>Cipher\<close>

definition extractEncryptedKeyId :: "string \<Rightarrow> string" where
  "extractEncryptedKeyId encryptedData = take 12 encryptedData"

definition extractEncryptedBody :: "externals \<Rightarrow> string \<Rightarrow> error + bytes" where
  "extractEncryptedBody ext encryptedData = base64_decode ext (drop 12 encryptedData)"

text \<open>
  \<open>Cipher.encrypt\<close>. The vector is the value \<open>crypto.getRandomValues(new Uint8Array(16))\<close>
  returned: any list of 16 bytes.
\<close>

definition encrypt ::
  "externals \<Rightarrow> bytes \<Rightarrow> encryptable_message \<Rightarrow> crypto_key \<Rightarrow> string \<Rightarrow> error + string" where
  "encrypt ext vector input key keyID =
     (let data = text_encode ext (ejson_stringify ext (message_object input)) in
      case encryptAES ext vector key data of
        Inl e \<Rightarrow> Inl e
      | Inr result \<Rightarrow>
          Inr (keyID @ base64_encode ext (joinVectorAndEncryptedData vector result)))"

text \<open>\<open>typeof x === 'object' && x !== null && 'text' in x\<close>\<close>

fun isEncryptableMessage :: "ejson \<Rightarrow> bool" where
  "isEncryptableMessage (EJObject props) = (''text'' \<in> fst ` set props)"
| "isEncryptableMessage _ = False"

text \<open>
  \<open>Cipher.decrypt\<close>. It returns the parsed value itself: the code checks only that it is
  an object with a \<open>text\<close> property.
\<close>

definition decrypt :: "externals \<Rightarrow> string \<Rightarrow> crypto_key \<Rightarrow> string \<Rightarrow> error + ejson" where
  "decrypt ext input key keyID =
     (if extractEncryptedKeyId input \<noteq> keyID then Inl NotDecryptable
      else case extractEncryptedBody ext input of
        Inl e \<Rightarrow> Inl e
      | Inr encrypted \<Rightarrow>
          (case splitVectorAndEncryptedData encrypted of
             (vector, cipherText) \<Rightarrow>
               (case decryptAES ext vector key cipherText of
                  Inl e \<Rightarrow> Inl e
                | Inr result \<Rightarrow>
                    (let decryptedText = text_decode ext result in
                     case ejson_parse ext decryptedText of
                       Inl e \<Rightarrow> Inl e
                     | Inr parsed \<Rightarrow>
                         if \<not> isEncryptableMessage parsed then Inl MalformedPlaintext
                         else Inr parsed))))"

text \<open>
  What the round trip needs of the collaborators: base64 decoding inverts encoding, AES
  decryption with the same vector and key inverts encryption, and the serialisation of a
  message object survives encoding to bytes and back and parses to the object.
\<close>

definition cipher_laws :: "externals \<Rightarrow> bool" where
  "cipher_laws ext \<longleftrightarrow>
     (\<forall>bs. base64_decode ext (base64_encode ext bs) = Inr bs) \<and>
     (\<forall>v k d c. encryptAES ext v k d = Inr c \<longrightarrow> decryptAES ext v k c = Inr d) \<and>
     (\<forall>m. text_decode ext (text_encode ext (ejson_stringify ext (message_object m)))
            = ejson_stringify ext (message_object m)) \<and>
     (\<forall>m. ejson_parse ext (ejson_stringify ext (message_object m)) = Inr (message_object m))"


text \<open>
  \<open>Base64.encode\<close> applied to a string encodes the bytes that are its character codes
  (it refuses a code above 255, which an 8-bit \<open>char\<close> never is).
\<close>

definition base64_encode_string :: "externals \<Rightarrow> string \<Rightarrow> string" where
  "base64_encode_string ext str = base64_encode ext (map of_char str)"

subsection \<open>Messages, room metadata, the client's state\<close>

text \<open>
  The fields of \<open>IMessage\<close> that the client reads: \<open>_id\<close>, \<open>t\<close>, \<open>e2e\<close>, \<open>msg\<close>. Every
  other field of a message lives in the extension part of the record (\<open>message.more\<close>).
\<close>

record message =
  msg_id :: string
  msg_t :: "string option"
  msg_e2e :: "string option"
  msg_msg :: string

text \<open>
  \<open>RoomMetadata\<close>. \<open>lastMessage\<close> is an object: it is kept with the identity of the
  object (a reference), which is what a shallow comparison looks at.
\<close>

record room_metadata =
  uid :: string
  encryptionRequired :: bool
  roomKeyID :: "string option"
  encryptedKey :: "string option"
  lastMessage :: "(nat \<times> message) option"

text \<open>
  Modelled from the spec: \<open>isShallowEqual\<close> of \<open>lib/utils\<close> is missing from the sources.
  The spec: "two instances are equal iff all fields are shallow-equal". Strings and
  booleans are compared by value, the \<open>lastMessage\<close> object by reference.
\<close>

fun isShallowEqual :: "room_metadata option \<Rightarrow> room_metadata option \<Rightarrow> bool" where
  "isShallowEqual None None = True"
| "isShallowEqual (Some a) (Some b) =
     (uid a = uid b \<and> encryptionRequired a = encryptionRequired b \<and>
      roomKeyID a = roomKeyID b \<and> encryptedKey a = encryptedKey b \<and>
      map_option fst (lastMessage a) = map_option fst (lastMessage b))"
| "isShallowEqual _ _ = False"

text \<open>
  The fields of an \<open>E2EERoomClient\<close>. \<open>computation\<close> tells whether the reactive
  computation is running.
\<close>

record room_client =
  rid :: string
  userPrivateKey :: crypto_key
  computation :: bool
  metadata :: "room_metadata option"
  key :: "crypto_key option"
  keyID :: "string option"
  sessionKeyExportedString :: "string option"

text \<open>
  What the client does to the outside, in the order it does it: the events it emits,
  the errors it logs, the RPCs and notifications it sends, and the asynchronous methods it
  calls without awaiting them.
\<close>

datatype signal = MetadataChanged | KeyChanged

datatype event =
    Emit signal
  | Console_error error
  | Post_setRoomKeyID string string
  | Get_usersOfRoomWithoutKey string
  | Post_updateGroupKey string string string
  | Notify_keyRequest string string
  | Call_decryptLastMessage
  | Call_decryptPendingMessages
  | Call_encryptForParticipant participant

text \<open>
  The result of an asynchronous method: it resolves, it rejects, or it stays suspended
  on a signal. \<open>Ill_typed\<close> is a resolved message whose \<open>msg\<close> is not a string, which
  the declared type of the method excludes.
\<close>

datatype 'a outcome = Returned 'a | Rejected error | Suspended | Ill_typed

text \<open>JavaScript truthiness of a \<open>string | undefined\<close>.\<close>

fun truthy :: "string option \<Rightarrow> bool" where
  "truthy None = False"
| "truthy (Some str) = (str \<noteq> [])"

fun property :: "string \<Rightarrow> ejson \<Rightarrow> ejson option" where
  "property name (EJObject props) = map_of props name"
| "property name _ = None"

subsection \<open>Key state\<close>

definition getMetadata :: "room_client \<Rightarrow> room_metadata option" where
  "getMetadata s = metadata s"

definition getKey :: "room_client \<Rightarrow> crypto_key option" where
  "getKey s = key s"

definition getKeyID :: "room_client \<Rightarrow> string option" where
  "getKeyID s = keyID s"

text \<open>
  \<open>fetchKey\<close> and \<open>fetchKeyID\<close> resolve at once when the value is not \<open>undefined\<close>;
  otherwise the promise waits for a \<open>keyChanged\<close> signal.
\<close>

definition fetchKey :: "room_client \<Rightarrow> crypto_key outcome" where
  "fetchKey s = (case getKey s of Some k \<Rightarrow> Returned k | None \<Rightarrow> Suspended)"

definition fetchKeyID :: "room_client \<Rightarrow> string outcome" where
  "fetchKeyID s = (case getKeyID s of Some k \<Rightarrow> Returned k | None \<Rightarrow> Suspended)"

definition discardKey :: "room_client \<Rightarrow> room_client" where
  "discardKey s = s\<lparr>key := None, keyID := None, sessionKeyExportedString := None\<rparr>"

text \<open>
  \<open>importSubscriptionKey\<close>: the result of the promise and the state it leaves. Every step
  that can fail comes before the three assignments.
\<close>

definition importSubscriptionKey ::
  "externals \<Rightarrow> room_client \<Rightarrow> string \<Rightarrow> (error + unit) \<times> room_client" where
  "importSubscriptionKey ext s encryptedSubscriptionKey =
     (case extractEncryptedBody ext encryptedSubscriptionKey of
        Inl e \<Rightarrow> (Inl e, s)
      | Inr encryptedBody \<Rightarrow>
     (case decryptRSA ext (userPrivateKey s) encryptedBody of
        Inl e \<Rightarrow> (Inl e, s)
      | Inr decrypted \<Rightarrow>
     (let unencryptedSubscriptionKey = fromBufferToString ext decrypted in
      case json_parse ext unencryptedSubscriptionKey of
        Inl e \<Rightarrow> (Inl e, s)
      | Inr jwkSubscriptionKey \<Rightarrow>
     (case importAESKey ext jwkSubscriptionKey of
        Inl e \<Rightarrow> (Inl e, s)
      | Inr subscriptionKey \<Rightarrow>
          (Inr (),
           s\<lparr>key := Some subscriptionKey,
             keyID := Some (extractEncryptedKeyId
                              (base64_encode_string ext unencryptedSubscriptionKey)),
             sessionKeyExportedString := Some unencryptedSubscriptionKey\<rparr>)))))"

text \<open>
  \<open>encryptKeyForOtherParticipants\<close>: the query, then one call of \<open>encryptForParticipant\<close>
  for each user returned, in order; the calls are not awaited.
\<close>

definition encryptKeyForOtherParticipants ::
  "externals \<Rightarrow> room_client \<Rightarrow> (error + unit) \<times> event list" where
  "encryptKeyForOtherParticipants ext s =
     (case get_usersOfRoomWithoutKey ext (rid s) of
        Inl e \<Rightarrow> (Inl e, [Get_usersOfRoomWithoutKey (rid s)])
      | Inr users \<Rightarrow>
          (Inr (), Get_usersOfRoomWithoutKey (rid s) # map Call_encryptForParticipant users))"

text \<open>
  \<open>encryptForParticipant\<close>, run against the state it finds. \<open>this.keyID + ...\<close> with an
  undefined \<open>keyID\<close> concatenates the text \<open>undefined\<close>.
\<close>

definition encryptForParticipant ::
  "externals \<Rightarrow> room_client \<Rightarrow> participant \<Rightarrow> (error + unit) \<times> event list" where
  "encryptForParticipant ext s user =
     (case user_e2e_public_key user of
        None \<Rightarrow> (Inr (), [])
      | Some public_key \<Rightarrow>
     (case json_parse ext public_key of
        Inl e \<Rightarrow> (Inl e, [])
      | Inr jwk \<Rightarrow>
     (case importRSAKey ext jwk of
        Inl e \<Rightarrow> (Inl e, [])
      | Inr userKey \<Rightarrow>
     (if \<not> truthy (sessionKeyExportedString s) then (Inr (), [])
      else
     (case encryptRSA ext userKey
             (fromStringToBuffer ext (the (sessionKeyExportedString s))) of
        Inl e \<Rightarrow> (Inl e, [])
      | Inr encryptedUserKey \<Rightarrow>
          (let wrapped = (case keyID s of None \<Rightarrow> ''undefined'' | Some k \<Rightarrow> k)
                           @ base64_encode ext encryptedUserKey
           in (post_updateGroupKey ext (rid s) (user_id user) wrapped,
               [Post_updateGroupKey (rid s) (user_id user) wrapped])))))))"

text \<open>
  \<open>createGroupKey\<close>: the result of the promise, the state it leaves and what it did.
  The three fields are assigned after the \<open>e2e.setRoomKeyID\<close> call has resolved and
  before the key is distributed.
\<close>

definition createGroupKey ::
  "externals \<Rightarrow> room_client \<Rightarrow> (error + unit) \<times> room_client \<times> event list" where
  "createGroupKey ext s =
     (case generateAESKey ext of
        Inl e \<Rightarrow> (Inl e, s, [])
      | Inr subscriptionKey \<Rightarrow>
     (case exportJWKKey ext subscriptionKey of
        Inl e \<Rightarrow> (Inl e, s, [])
      | Inr jwkSubscriptionKey \<Rightarrow>
     (let unencryptedSubscriptionKey = json_stringify ext jwkSubscriptionKey;
          newKeyID = extractEncryptedKeyId
                       (base64_encode_string ext unencryptedSubscriptionKey)
      in
      case post_setRoomKeyID ext (rid s) newKeyID of
        Inl e \<Rightarrow> (Inl e, s, [Post_setRoomKeyID (rid s) newKeyID])
      | Inr _ \<Rightarrow>
     (let s' = s\<lparr>key := Some subscriptionKey,
                 keyID := Some newKeyID,
                 sessionKeyExportedString := Some unencryptedSubscriptionKey\<rparr>
      in
      case encryptKeyForOtherParticipants ext s' of
        (r, evs) \<Rightarrow> (r, s', Post_setRoomKeyID (rid s) newKeyID # evs)))))"

definition requestGroupKey :: "room_client \<Rightarrow> string \<Rightarrow> event list" where
  "requestGroupKey s requestedKeyID = [Notify_keyRequest (rid s) requestedKeyID]"

text \<open>
  \<open>provideKeyToUser\<close>: the distribution is started and not awaited; a failure of the
  query is not handled.
\<close>

definition provideKeyToUser :: "externals \<Rightarrow> room_client \<Rightarrow> string \<Rightarrow> event list" where
  "provideKeyToUser ext s requestedKeyID =
     (if keyID s \<noteq> Some requestedKeyID then []
      else snd (encryptKeyForOtherParticipants ext s))"


subsection \<open>The key lifecycle\<close>

text \<open>
  \<open>handleMetadataChanged\<close>, with the promise it starts followed to its end: the state
  after the transition and what the client did, in order. A transition is taken as a
  whole; two overlapping transitions are not modelled.
\<close>

definition handleMetadataChanged :: "externals \<Rightarrow> room_client \<Rightarrow> room_client \<times> event list" where
  "handleMetadataChanged ext s =
     (case getMetadata s of
        None \<Rightarrow> (discardKey s, [Emit KeyChanged])
      | Some md \<Rightarrow>
     (let roomKeyId = roomKeyID md; encryptedSubscriptionKey = encryptedKey md in
      if truthy (getKeyID s) \<and> getKey s \<noteq> None \<and> getKeyID s = roomKeyId
      then (s, [Call_decryptLastMessage, Call_decryptPendingMessages])
      else
     (let s1 = discardKey s in
      if truthy encryptedSubscriptionKey then
        (case importSubscriptionKey ext s1 (the encryptedSubscriptionKey) of
           (Inr _, s2) \<Rightarrow> (s2, [Emit KeyChanged, Emit KeyChanged])
         | (Inl e, s2) \<Rightarrow> (s2, [Emit KeyChanged, Console_error e]))
      else if \<not> truthy roomKeyId then
        (case createGroupKey ext s1 of
           (Inr _, s2, evs) \<Rightarrow> (s2, Emit KeyChanged # evs @ [Emit KeyChanged])
         | (Inl e, s2, evs) \<Rightarrow> (s2, Emit KeyChanged # evs @ [Console_error e]))
      else (s1, Emit KeyChanged # requestGroupKey s1 (the roomKeyId)))))"

subsection \<open>The key lifecycle, step by step\<close>

text \<open>
  The same transitions with every action paired with the state of the client at the
  moment the action is performed, so that the place of the assignments among the actions
  can be read off. In \<open>createGroupKey\<close> the \<open>e2e.setRoomKeyID\<close> call (source line 276)
  is made before the three assignments (lines 278 to 280), and
  \<open>encryptKeyForOtherParticipants\<close> (line 282) after them.
\<close>

type_synonym step = "event \<times> room_client"

definition encryptKeyForOtherParticipants_steps ::
  "externals \<Rightarrow> room_client \<Rightarrow> (error + unit) \<times> step list" where
  "encryptKeyForOtherParticipants_steps ext s =
     (case get_usersOfRoomWithoutKey ext (rid s) of
        Inl e \<Rightarrow> (Inl e, [(Get_usersOfRoomWithoutKey (rid s), s)])
      | Inr users \<Rightarrow>
          (Inr (), (Get_usersOfRoomWithoutKey (rid s), s)
                     # map (\<lambda>user. (Call_encryptForParticipant user, s)) users))"

definition createGroupKey_steps ::
  "externals \<Rightarrow> room_client \<Rightarrow> (error + unit) \<times> room_client \<times> step list" where
  "createGroupKey_steps ext s =
     (case generateAESKey ext of
        Inl e \<Rightarrow> (Inl e, s, [])
      | Inr subscriptionKey \<Rightarrow>
     (case exportJWKKey ext subscriptionKey of
        Inl e \<Rightarrow> (Inl e, s, [])
      | Inr jwkSubscriptionKey \<Rightarrow>
     (let unencryptedSubscriptionKey = json_stringify ext jwkSubscriptionKey;
          newKeyID = extractEncryptedKeyId
                       (base64_encode_string ext unencryptedSubscriptionKey)
      in
      case post_setRoomKeyID ext (rid s) newKeyID of
        Inl e \<Rightarrow> (Inl e, s, [(Post_setRoomKeyID (rid s) newKeyID, s)])
      | Inr _ \<Rightarrow>
     (let s' = s\<lparr>key := Some subscriptionKey,
                 keyID := Some newKeyID,
                 sessionKeyExportedString := Some unencryptedSubscriptionKey\<rparr>
      in
      case encryptKeyForOtherParticipants_steps ext s' of
        (r, steps) \<Rightarrow> (r, s', (Post_setRoomKeyID (rid s) newKeyID, s) # steps)))))"

definition handleMetadataChanged_steps ::
  "externals \<Rightarrow> room_client \<Rightarrow> room_client \<times> step list" where
  "handleMetadataChanged_steps ext s =
     (case getMetadata s of
        None \<Rightarrow> (discardKey s, [(Emit KeyChanged, discardKey s)])
      | Some md \<Rightarrow>
     (let roomKeyId = roomKeyID md; encryptedSubscriptionKey = encryptedKey md in
      if truthy (getKeyID s) \<and> getKey s \<noteq> None \<and> getKeyID s = roomKeyId
      then (s, [(Call_decryptLastMessage, s), (Call_decryptPendingMessages, s)])
      else
     (let s1 = discardKey s in
      if truthy encryptedSubscriptionKey then
        (case importSubscriptionKey ext s1 (the encryptedSubscriptionKey) of
           (Inr _, s2) \<Rightarrow> (s2, [(Emit KeyChanged, s1), (Emit KeyChanged, s2)])
         | (Inl e, s2) \<Rightarrow> (s2, [(Emit KeyChanged, s1), (Console_error e, s2)]))
      else if \<not> truthy roomKeyId then
        (case createGroupKey_steps ext s1 of
           (Inr _, s2, steps) \<Rightarrow> (s2, (Emit KeyChanged, s1) # steps @ [(Emit KeyChanged, s2)])
         | (Inl e, s2, steps) \<Rightarrow> (s2, (Emit KeyChanged, s1) # steps @ [(Console_error e, s2)]))
      else (s1, (Emit KeyChanged, s1)
                  # map (\<lambda>ev. (ev, s1)) (requestGroupKey s1 (the roomKeyId))))))"

subsection \<open>The metadata observer\<close>

text \<open>
  The constructor: every field but \<open>rid\<close> and \<open>userPrivateKey\<close> is \<open>undefined\<close>, and
  \<open>handleMetadataChanged\<close> is the listener of \<open>metadataChanged\<close>.
\<close>

definition new_client :: "string \<Rightarrow> crypto_key \<Rightarrow> room_client" where
  "new_client r k =
     \<lparr>rid = r, userPrivateKey = k, computation = False, metadata = None,
      key = None, keyID = None, sessionKeyExportedString = None\<rparr>"

text \<open>\<open>this.emit('metadataChanged')\<close>: the event, then its listener.\<close>

definition emit_metadataChanged :: "externals \<Rightarrow> room_client \<Rightarrow> room_client \<times> event list" where
  "emit_metadataChanged ext s =
     (case handleMetadataChanged ext s of (s', evs) \<Rightarrow> (s', Emit MetadataChanged # evs))"

text \<open>
  The function given to \<open>Tracker.autorun\<close>, at one evaluation; \<open>snapshot\<close> is what
  \<open>getRoomMetadata(this.rid)\<close> returns there.
\<close>

definition autorun_callback ::
  "externals \<Rightarrow> room_client \<Rightarrow> room_metadata option \<Rightarrow> room_client \<times> event list" where
  "autorun_callback ext s snapshot =
     (if isShallowEqual (metadata s) snapshot then (s, [])
      else emit_metadataChanged ext (s\<lparr>metadata := snapshot\<rparr>))"

text \<open>The evaluations of the function for a sequence of snapshots.\<close>

fun autorun_runs ::
  "externals \<Rightarrow> room_client \<Rightarrow> room_metadata option list \<Rightarrow> room_client \<times> event list" where
  "autorun_runs ext s [] = (s, [])"
| "autorun_runs ext s (snapshot # rest) =
     (case autorun_callback ext s snapshot of
        (s1, evs1) \<Rightarrow>
          (case autorun_runs ext s1 rest of (s2, evs2) \<Rightarrow> (s2, evs1 @ evs2)))"

text \<open>
  \<open>start\<close> runs the function once, unless the computation exists already; \<open>stop\<close>
  forgets the computation.
\<close>

definition start ::
  "externals \<Rightarrow> room_client \<Rightarrow> room_metadata option \<Rightarrow> room_client \<times> event list" where
  "start ext s snapshot =
     (if computation s then (s, [])
      else case autorun_callback ext s snapshot of
             (s', evs) \<Rightarrow> (s'\<lparr>computation := True\<rparr>, evs))"

definition stop :: "room_client \<Rightarrow> room_client" where
  "stop s = s\<lparr>computation := False\<rparr>"

subsection \<open>Messages\<close>

text \<open>
  The end of \<open>decryptMessage\<close>, once \<open>key\<close> and \<open>keyID\<close> have their values.
\<close>

definition decryptMessage_with ::
  "externals \<Rightarrow> 'a message_scheme \<Rightarrow> crypto_key option \<Rightarrow> string option
     \<Rightarrow> 'a message_scheme outcome" where
  "decryptMessage_with ext message k kid =
     (if k = None \<or> \<not> truthy kid then Returned message
      else case decrypt ext (msg_msg message) (the k) (the kid) of
        Inl e \<Rightarrow> Rejected e
      | Inr data \<Rightarrow>
          (case property ''text'' data of
             Some (EJString txt) \<Rightarrow>
               Returned (message\<lparr>msg_msg := txt, msg_e2e := Some ''done''\<rparr>)
           | _ \<Rightarrow> Ill_typed))"

definition decryptMessage ::
  "externals \<Rightarrow> room_client \<Rightarrow> 'a message_scheme \<Rightarrow> bool \<Rightarrow> 'a message_scheme outcome" where
  "decryptMessage ext s message waitForKey =
     (if msg_t message \<noteq> Some ''e2e'' \<or> msg_e2e message = Some ''done'' then Returned message
      else if waitForKey then
        (case fetchKey s of
           Returned k \<Rightarrow>
             (case fetchKeyID s of
                Returned kid \<Rightarrow> decryptMessage_with ext message (Some k) (Some kid)
              | _ \<Rightarrow> Suspended)
         | _ \<Rightarrow> Suspended)
      else decryptMessage_with ext message (getKey s) (getKeyID s))"

text \<open>\<open>encryptMessage\<close>; \<open>vector\<close> is the nonce \<open>Cipher.encrypt\<close> draws.\<close>

definition encryptMessage ::
  "externals \<Rightarrow> bytes \<Rightarrow> room_client \<Rightarrow> 'a message_scheme \<Rightarrow> 'a message_scheme outcome" where
  "encryptMessage ext vector s message =
     (case getMetadata s of
        None \<Rightarrow> Returned message
      | Some md \<Rightarrow>
          if \<not> encryptionRequired md then Returned message
          else if msg_t message = Some ''e2e'' then Returned message
          else
            (case fetchKey s of
               Returned k \<Rightarrow>
                 (case fetchKeyID s of
                    Returned kid \<Rightarrow>
                      (let ts = date_now ext
                                  + (case serverOffset ext of None \<Rightarrow> 0 | Some off \<Rightarrow> off)
                       in
                       case encrypt ext vector
                              \<lparr>em_id = msg_id message, em_text = msg_msg message,
                               em_userId = uid md, em_ts = ts\<rparr> k kid of
                         Inl e \<Rightarrow> Rejected e
                       | Inr encrypted \<Rightarrow>
                           Returned (message\<lparr>msg_t := Some ''e2e'', msg_msg := encrypted,
                                              msg_e2e := Some ''pending''\<rparr>))
                  | _ \<Rightarrow> Suspended)
             | _ \<Rightarrow> Suspended))"


subsection \<open>Predicates on states and traces\<close>

definition keyless :: "room_client \<Rightarrow> bool" where
  "keyless s \<longleftrightarrow> key s = None \<and> keyID s = None \<and> sessionKeyExportedString s = None"

definition keyed :: "room_client \<Rightarrow> bool" where
  "keyed s \<longleftrightarrow> key s \<noteq> None \<and> keyID s \<noteq> None \<and> sessionKeyExportedString s \<noteq> None"

fun is_setRoomKeyID :: "event \<Rightarrow> bool" where
  "is_setRoomKeyID (Post_setRoomKeyID r k) = True"
| "is_setRoomKeyID _ = False"

subsection \<open>A concrete set of collaborators\<close>

text \<open>
  Small stand-ins for the collaborators, on which the model can be run: bytes and
  characters correspond one to one, a cipher adds the number of the key to every byte, and
  a message object is serialised field by field, each string behind its length in dots.
\<close>

definition demo_to_bytes :: "string \<Rightarrow> bytes" where
  "demo_to_bytes str = map of_char str"

definition demo_to_string :: "bytes \<Rightarrow> string" where
  "demo_to_string bs = map (\<lambda>w. char_of (unat w)) bs"

definition demo_field :: "string \<Rightarrow> string" where
  "demo_field str = replicate (length str) CHR ''.'' @ CHR '':'' # str"

definition demo_unfield :: "string \<Rightarrow> string \<times> string" where
  "demo_unfield str =
     (let n = length (takeWhile (\<lambda>c. c = CHR ''.'') str); r = drop (Suc n) str
      in (take n r, drop n r))"

definition demo_num :: "int \<Rightarrow> string" where
  "demo_num n = (if n < 0 then CHR ''-'' else CHR ''+'') # replicate (nat \<bar>n\<bar>) CHR ''I''"

definition demo_unnum :: "string \<Rightarrow> int" where
  "demo_unnum str =
     (case str of [] \<Rightarrow> 0
      | c # r \<Rightarrow> if c = CHR ''-'' then - int (length r) else int (length r))"

definition demo_string_property :: "string \<Rightarrow> ejson \<Rightarrow> string" where
  "demo_string_property name v =
     (case property name v of Some (EJString str) \<Rightarrow> str | _ \<Rightarrow> [])"

definition demo_date_property :: "string \<Rightarrow> ejson \<Rightarrow> int" where
  "demo_date_property name v = (case property name v of Some (EJDate n) \<Rightarrow> n | _ \<Rightarrow> 0)"

definition demo_stringify :: "ejson \<Rightarrow> string" where
  "demo_stringify v =
     demo_field (demo_string_property ''_id'' v) @ demo_field (demo_string_property ''text'' v)
       @ demo_field (demo_string_property ''userId'' v) @ demo_num (demo_date_property ''ts'' v)"

definition demo_parse :: "string \<Rightarrow> error + ejson" where
  "demo_parse str =
     (case demo_unfield str of (a, r1) \<Rightarrow>
      case demo_unfield r1 of (b, r2) \<Rightarrow>
      case demo_unfield r2 of (c, r3) \<Rightarrow>
        Inr (EJObject [(''_id'', EJString a), (''text'', EJString b),
                       (''userId'', EJString c), (''ts'', EJDate (demo_unnum r3))]))"

fun demo_shift :: "crypto_key \<Rightarrow> bytes \<Rightarrow> bytes" where
  "demo_shift (CryptoKey n) bs = map (\<lambda>b. b + of_nat n) bs"

fun demo_unshift :: "crypto_key \<Rightarrow> bytes \<Rightarrow> bytes" where
  "demo_unshift (CryptoKey n) bs = map (\<lambda>b. b - of_nat n) bs"

fun demo_export :: "crypto_key \<Rightarrow> ejson" where
  "demo_export (CryptoKey n) = EJString (replicate n CHR ''k'')"

fun demo_import :: "ejson \<Rightarrow> error + crypto_key" where
  "demo_import (EJString str) = Inr (CryptoKey (length str))"
| "demo_import _ = Inl (External ''DataError'')"

fun demo_json_stringify :: "ejson \<Rightarrow> string" where
  "demo_json_stringify (EJString str) = str"
| "demo_json_stringify _ = ''null''"

definition alice :: participant where
  "alice = \<lparr>user_id = ''alice'', user_e2e_public_key = Some ''kkk''\<rparr>"

definition bob :: participant where
  "bob = \<lparr>user_id = ''bob'', user_e2e_public_key = None\<rparr>"

definition demo_externals :: externals where
  "demo_externals =
     \<lparr>text_encode = demo_to_bytes,
      text_decode = demo_to_string,
      ejson_stringify = demo_stringify,
      ejson_parse = demo_parse,
      json_stringify = demo_json_stringify,
      json_parse = (\<lambda>str. Inr (EJString str)),
      base64_encode = demo_to_string,
      base64_decode = (\<lambda>str. Inr (demo_to_bytes str)),
      encryptAES = (\<lambda>v k d. Inr (demo_shift k d)),
      decryptAES = (\<lambda>v k c. Inr (demo_unshift k c)),
      encryptRSA = (\<lambda>k d. Inr (demo_shift k d)),
      decryptRSA = (\<lambda>k c. Inr (demo_unshift k c)),
      generateAESKey = Inr (CryptoKey 14),
      exportJWKKey = (\<lambda>k. Inr (demo_export k)),
      importAESKey = demo_import,
      importRSAKey = demo_import,
      fromBufferToString = demo_to_string,
      fromStringToBuffer = demo_to_bytes,
      post_setRoomKeyID = (\<lambda>r k. Inr ()),
      get_usersOfRoomWithoutKey = (\<lambda>r. Inr [alice, bob]),
      post_updateGroupKey = (\<lambda>r u k. Inr ()),
      date_now = 1000,
      serverOffset = Some 5\<rparr>"



text \<open>An example message, key id and nonce.\<close>

definition demo_message :: encryptable_message where
  "demo_message = \<lparr>em_id = ''m1'', em_text = ''hi'', em_userId = ''u1'', em_ts = 3\<rparr>"

definition demo_keyID :: string where
  "demo_keyID = ''ABCDEFGHIJKL''"

definition demo_vector :: bytes where
  "demo_vector = replicate 16 1"

text \<open>
  Example rooms. In \<open>demo_wrapped_room\<close> the room publishes the key id \<open>ABCDEFGHIJKL\<close>
  and the user's wrapped key unwraps to the material \<open>kkkkkkkkkkkkkkkk\<close>, whose derived
  key id is \<open>kkkkkkkkkkkk\<close>. In \<open>demo_fresh_room\<close> the room is encrypted and has neither
  a key id nor a wrapped key.
\<close>

definition demo_client :: room_client where
  "demo_client = new_client ''room1'' (CryptoKey 1)"

definition demo_wrapped_metadata :: room_metadata where
  "demo_wrapped_metadata =
     \<lparr>uid = ''u1'', encryptionRequired = True, roomKeyID = Some ''ABCDEFGHIJKL'',
      encryptedKey = Some ''ABCDEFGHIJKLllllllllllllllll'', lastMessage = None\<rparr>"

definition demo_wrapped_room :: room_client where
  "demo_wrapped_room = demo_client\<lparr>metadata := Some demo_wrapped_metadata\<rparr>"

definition demo_fresh_metadata :: room_metadata where
  "demo_fresh_metadata =
     \<lparr>uid = ''u1'', encryptionRequired = True, roomKeyID = None,
      encryptedKey = None, lastMessage = None\<rparr>"

definition demo_fresh_room :: room_client where
  "demo_fresh_room = demo_client\<lparr>metadata := Some demo_fresh_metadata\<rparr>"


text \<open>
  A room whose client holds the key \<open>CryptoKey 2\<close> under \<open>demo_keyID\<close>, the ciphertext
  of \<open>demo_message\<close> under that key, a pending encrypted message carrying it, a plain
  message, and a room that does not require encryption. The messages carry one more
  field, in the extension of the record.
\<close>

definition demo_keyed_room :: room_client where
  "demo_keyed_room =
     demo_wrapped_room\<lparr>key := Some (CryptoKey 2), keyID := Some demo_keyID,
                        sessionKeyExportedString := Some ''kk''\<rparr>"

definition demo_ciphertext :: string where
  "demo_ciphertext =
     demo_keyID @ demo_to_string (demo_vector @
       demo_shift (CryptoKey 2) (demo_to_bytes (demo_stringify (message_object demo_message))))"

definition demo_pending_message :: "string message_scheme" where
  "demo_pending_message =
     \<lparr>msg_id = ''m1'', msg_t = Some ''e2e'', msg_e2e = Some ''pending'',
      msg_msg = demo_ciphertext, \<dots> = ''rid: room1''\<rparr>"

definition demo_plain_message :: "string message_scheme" where
  "demo_plain_message =
     \<lparr>msg_id = ''m2'', msg_t = None, msg_e2e = None, msg_msg = ''hello'', \<dots> = ''rid: room1''\<rparr>"

definition demo_unencrypted_room :: room_client where
  "demo_unencrypted_room =
     demo_client\<lparr>metadata := Some (demo_wrapped_metadata\<lparr>encryptionRequired := False\<rparr>)\<rparr>"

text \<open>The fresh room's client once it has created and adopted its key.\<close>

definition demo_created_room :: room_client where
  "demo_created_room =
     demo_fresh_room\<lparr>key := Some (CryptoKey 14), keyID := Some ''kkkkkkkkkkkk'',
                      sessionKeyExportedString := Some ''kkkkkkkkkkkkkk''\<rparr>"

section \<open>Properties\<close>

subsection \<open>The example collaborators satisfy the cipher laws\<close>

lemma char_byte_char: "char_of (unat (of_char c :: 8 word)) = c"
proof -
  have "(of_char c :: 8 word) = of_nat (of_char c)"
    by (simp only: of_nat_of_char)
  then have "unat (of_char c :: 8 word) = of_char c mod 256"
    by (simp only: unat_of_nat) simp
  then show ?thesis by simp
qed

lemma byte_char_byte: "(of_char (char_of (unat w)) :: 8 word) = w"
proof -
  have "(of_char (char_of (unat w)) :: 8 word) = of_nat (of_char (char_of (unat w)))"
    by (simp only: of_nat_of_char)
  also have "\<dots> = of_nat (unat w mod 256)"
    by (simp only: of_char_of)
  also have "\<dots> = w"
    using unsigned_less [of w, where ?'a = nat] by simp
  finally show ?thesis .
qed

lemma demo_bytes_string: "demo_to_string (demo_to_bytes str) = str"
  unfolding demo_to_string_def demo_to_bytes_def
  by (induction str) (simp_all add: char_byte_char)

lemma demo_string_bytes: "demo_to_bytes (demo_to_string bs) = bs"
  unfolding demo_to_string_def demo_to_bytes_def
  by (induction bs) (simp_all add: byte_char_byte)

lemma demo_dots: "takeWhile (\<lambda>c. c = CHR ''.'') (replicate n CHR ''.'' @ CHR '':'' # rest) = replicate n CHR ''.''"
  by (induction n) simp_all

lemma demo_unfield_field: "demo_unfield (demo_field str @ rest) = (str, rest)"
proof -
  have "demo_field str @ rest = replicate (length str) CHR ''.'' @ CHR '':'' # (str @ rest)"
    by (simp add: demo_field_def)
  then show ?thesis
    by (simp add: demo_unfield_def demo_dots Let_def del: replicate.simps)
qed

lemma demo_unnum_num: "demo_unnum (demo_num n) = n"
  unfolding demo_unnum_def demo_num_def by simp

lemma demo_parse_stringify: "demo_parse (demo_stringify (message_object m)) = Inr (message_object m)"
  unfolding demo_parse_def demo_stringify_def message_object_def
  by (simp add: demo_unfield_field demo_unnum_num demo_string_property_def demo_date_property_def)

lemma demo_unshift_shift: "demo_unshift k (demo_shift k d) = d"
  by (cases k) (simp add: comp_def)

lemma demo_cipher_laws: "cipher_laws demo_externals"
  unfolding cipher_laws_def demo_externals_def
  by (auto simp: demo_bytes_string demo_string_bytes demo_unshift_shift demo_parse_stringify)

subsection \<open>Cipher\<close>

text \<open>
  C1. Round trip: for every message \<open>m\<close>, key \<open>k\<close>, key id of length 12 and 16-byte
  nonce, when \<open>Cipher.encrypt\<close> returns a ciphertext, \<open>Cipher.decrypt\<close> of that ciphertext
  with the same key and key id returns the object \<open>m\<close>. The collaborators are assumed to
  satisfy \<open>cipher_laws\<close>.
\<close>

theorem cipher_round_trip:
  assumes laws: "cipher_laws ext"
    and id12: "length kid = 12"
    and v16: "length vector = 16"
    and enc: "encrypt ext vector m k kid = Inr c"
  shows "decrypt ext c k kid = Inr (message_object m)"
proof -
  let ?data = "text_encode ext (ejson_stringify ext (message_object m))"
  from enc obtain result where
    aes: "encryptAES ext vector k ?data = Inr result" and
    c: "c = kid @ base64_encode ext (joinVectorAndEncryptedData vector result)"
    by (auto simp: encrypt_def Let_def split: sum.splits)
  have kid: "extractEncryptedKeyId c = kid"
    using id12 by (simp add: c extractEncryptedKeyId_def)
  have body: "extractEncryptedBody ext c = Inr (vector @ result)"
    using id12 laws by (simp add: c extractEncryptedBody_def cipher_laws_def joinVectorAndEncryptedData_def)
  have parts: "splitVectorAndEncryptedData (vector @ result) = (vector, result)"
    using v16 by (simp add: splitVectorAndEncryptedData_def)
  have dec: "decryptAES ext vector k result = Inr ?data"
    using laws aes unfolding cipher_laws_def by blast
  have decoded: "text_decode ext ?data = ejson_stringify ext (message_object m)"
    using laws unfolding cipher_laws_def by blast
  have parse: "ejson_parse ext (ejson_stringify ext (message_object m)) = Inr (message_object m)"
    using laws unfolding cipher_laws_def by blast
  have shape: "isEncryptableMessage (message_object m)"
    by (simp add: message_object_def)
  show ?thesis
    unfolding decrypt_def by (simp add: kid body parts dec decoded parse shape)
qed


theorem cipher_round_trip_witness:
  "cipher_laws demo_externals \<and> length demo_keyID = 12 \<and> length demo_vector = 16 \<and>
   (\<exists>c. encrypt demo_externals demo_vector demo_message (CryptoKey 2) demo_keyID = Inr c \<and>
        decrypt demo_externals c (CryptoKey 2) demo_keyID = Inr (message_object demo_message))"
proof -
  have id12: "length demo_keyID = 12"
    by (simp add: demo_keyID_def)
  have v16: "length demo_vector = 16"
    by (simp add: demo_vector_def)
  obtain c where enc:
    "encrypt demo_externals demo_vector demo_message (CryptoKey 2) demo_keyID = Inr c"
    by (simp add: encrypt_def demo_externals_def)
  from cipher_round_trip [OF demo_cipher_laws id12 v16 enc] enc demo_cipher_laws id12 v16
  show ?thesis by blast
qed

text \<open>
  C2. Key id mismatch: when the first 12 characters of the input differ from the key id
  supplied, \<open>Cipher.decrypt\<close> fails with \<open>NotDecryptable\<close>, whatever the collaborators
  would do (none of them is consulted); in particular for a ciphertext that
  \<open>Cipher.encrypt\<close> wrote under a 12-character key id \<open>A\<close>, decrypted under \<open>B \<noteq> A\<close>.
\<close>

theorem decrypt_key_id_mismatch:
  "(take 12 input \<noteq> kidB \<longrightarrow> decrypt ext input k kidB = Inl NotDecryptable) \<and>
   (length kidA = 12 \<and> kidA \<noteq> kidB \<and> encrypt ext' vector m k' kidA = Inr c
      \<longrightarrow> decrypt ext c k kidB = Inl NotDecryptable)"
  by (auto simp: decrypt_def encrypt_def extractEncryptedKeyId_def Let_def split: sum.splits)

theorem decrypt_key_id_mismatch_witness:
  "take 12 (''ABCDEFGHIJKLxyz'') \<noteq> ''ABCDEFGHIJKM'' \<and>
   decrypt demo_externals ''ABCDEFGHIJKLxyz'' (CryptoKey 2) ''ABCDEFGHIJKM'' = Inl NotDecryptable \<and>
   length demo_keyID = 12 \<and> demo_keyID \<noteq> ''ABCDEFGHIJKM'' \<and>
   (\<exists>c. encrypt demo_externals demo_vector demo_message (CryptoKey 2) demo_keyID = Inr c \<and>
        decrypt demo_externals c (CryptoKey 2) ''ABCDEFGHIJKM'' = Inl NotDecryptable)"
proof -
  have a: "take 12 (''ABCDEFGHIJKLxyz'') \<noteq> ''ABCDEFGHIJKM''"
    by simp
  have b: "length demo_keyID = 12" "demo_keyID \<noteq> ''ABCDEFGHIJKM''"
    by (simp_all add: demo_keyID_def)
  obtain c where enc:
    "encrypt demo_externals demo_vector demo_message (CryptoKey 2) demo_keyID = Inr c"
    by (simp add: encrypt_def demo_externals_def)
  from decrypt_key_id_mismatch
         [of "''ABCDEFGHIJKLxyz''" "''ABCDEFGHIJKM''" demo_externals "CryptoKey 2"
             demo_keyID demo_externals demo_vector demo_message "CryptoKey 2" c]
       a b enc
  show ?thesis by blast
qed


subsection \<open>Key state and lifecycle\<close>

lemma discardKey_keyless: "keyless (discardKey s)"
  by (simp add: keyless_def discardKey_def)

lemma discardKey_metadata: "metadata (discardKey s) = metadata s"
  by (simp add: discardKey_def)

lemma discardKey_rid: "rid (discardKey s) = rid s"
  by (simp add: discardKey_def)

lemma importSubscriptionKey_cases:
  "importSubscriptionKey ext s w = (r, s') \<Longrightarrow>
     (\<exists>e. r = Inl e \<and> s' = s) \<or>
     (r = Inr () \<and> (\<exists>k kid exported.
        s' = s\<lparr>key := Some k, keyID := Some kid, sessionKeyExportedString := Some exported\<rparr>))"
  by (auto simp: importSubscriptionKey_def Let_def split: sum.splits)

lemma createGroupKey_cases:
  "createGroupKey ext s = (r, s', evs) \<Longrightarrow>
     (\<exists>e. r = Inl e \<and> s' = s \<and> Get_usersOfRoomWithoutKey (rid s) \<notin> set evs) \<or>
     ((\<exists>k kid exported.
        s' = s\<lparr>key := Some k, keyID := Some kid, sessionKeyExportedString := Some exported\<rparr>)
      \<and> Get_usersOfRoomWithoutKey (rid s) \<in> set evs)"
  by (auto simp: createGroupKey_def encryptKeyForOtherParticipants_def Let_def
           split: sum.splits prod.splits) metis+

lemma createGroupKey_events:
  "createGroupKey ext s = (r, s', evs) \<Longrightarrow> Emit sig \<notin> set evs"
  by (auto simp: createGroupKey_def encryptKeyForOtherParticipants_def Let_def
           split: sum.splits prod.splits)

lemma handleMetadataChanged_metadata:
  "metadata (fst (handleMetadataChanged ext s)) = metadata s"
proof (cases "getMetadata s")
  case None
  then show ?thesis
    by (simp add: handleMetadataChanged_def discardKey_metadata)
next
  case (Some md)
  obtain r1 s1 where i: "importSubscriptionKey ext (discardKey s) (the (encryptedKey md)) = (r1, s1)"
    by (cases "importSubscriptionKey ext (discardKey s) (the (encryptedKey md))") auto
  obtain r2 s2 evs where c: "createGroupKey ext (discardKey s) = (r2, s2, evs)"
    by (cases "createGroupKey ext (discardKey s)") auto
  from importSubscriptionKey_cases [OF i] have m1: "metadata s1 = metadata s"
    by (auto simp: discardKey_metadata)
  from createGroupKey_cases [OF c] have m2: "metadata s2 = metadata s"
    by (auto simp: discardKey_metadata)
  show ?thesis
    using Some i c m1 m2
    by (auto simp: handleMetadataChanged_def Let_def discardKey_metadata split: sum.splits)
qed

lemma handleMetadataChanged_no_metadataChanged:
  "Emit MetadataChanged \<notin> set (snd (handleMetadataChanged ext s))"
proof (cases "getMetadata s")
  case None
  then show ?thesis
    by (simp add: handleMetadataChanged_def)
next
  case (Some md)
  obtain r2 s2 evs where c: "createGroupKey ext (discardKey s) = (r2, s2, evs)"
    by (cases "createGroupKey ext (discardKey s)") auto
  from createGroupKey_events [OF c] have "Emit MetadataChanged \<notin> set evs" .
  then show ?thesis
    using Some c
    by (auto simp: handleMetadataChanged_def Let_def requestGroupKey_def split: sum.splits prod.splits)
qed











text \<open>
  C5. After \<open>discardKey\<close> the three fields are absent; after an \<open>importSubscriptionKey\<close>
  or a \<open>createGroupKey\<close> that resolves the three are present; and whatever their
  outcome, the two operations take a state that is keyless or keyed to a state that is
  keyless or keyed.
\<close>

theorem key_fields_all_or_none:
  "keyless (discardKey s) \<and>
   (fst (importSubscriptionKey ext s w) = Inr ()
      \<longrightarrow> keyed (snd (importSubscriptionKey ext s w))) \<and>
   (fst (createGroupKey ext s) = Inr ()
      \<longrightarrow> keyed (fst (snd (createGroupKey ext s)))) \<and>
   (keyless s \<or> keyed s
      \<longrightarrow> (keyless (snd (importSubscriptionKey ext s w)) \<or>
           keyed (snd (importSubscriptionKey ext s w))) \<and>
          (keyless (fst (snd (createGroupKey ext s))) \<or>
           keyed (fst (snd (createGroupKey ext s)))))"
proof -
  obtain r1 s1 where i: "importSubscriptionKey ext s w = (r1, s1)"
    by (cases "importSubscriptionKey ext s w") auto
  obtain r2 s2 evs where c: "createGroupKey ext s = (r2, s2, evs)"
    by (cases "createGroupKey ext s") auto
  have i': "s1 = s \<and> r1 \<noteq> Inr () \<or> keyed s1"
    using importSubscriptionKey_cases [OF i] by (auto simp: keyed_def)
  have c': "s2 = s \<and> r2 \<noteq> Inr () \<or> keyed s2"
    using createGroupKey_cases [OF c] by (auto simp: keyed_def)
  show ?thesis
    using i' c' by (auto simp: i c discardKey_keyless)
qed

theorem key_fields_all_or_none_witness:
  "keyless (discardKey demo_client) \<and>
   fst (importSubscriptionKey demo_externals demo_client ''ABCDEFGHIJKLllllllllllllllll'') = Inr () \<and>
   keyed (snd (importSubscriptionKey demo_externals demo_client ''ABCDEFGHIJKLllllllllllllllll'')) \<and>
   fst (createGroupKey demo_externals demo_client) = Inr () \<and>
   keyed (fst (snd (createGroupKey demo_externals demo_client))) \<and>
   keyless demo_client"
proof -
  have a: "fst (importSubscriptionKey demo_externals demo_client ''ABCDEFGHIJKLllllllllllllllll'') = Inr ()"
    by code_simp
  have b: "fst (createGroupKey demo_externals demo_client) = Inr ()"
    by code_simp
  have c: "keyless demo_client"
    by (simp add: keyless_def demo_client_def new_client_def)
  from key_fields_all_or_none [of demo_client demo_externals "''ABCDEFGHIJKLllllllllllllllll''"] a b c
  show ?thesis by simp
qed

text \<open>The step-by-step transitions perform the actions of the transitions, in order.\<close>

lemma encryptKeyForOtherParticipants_steps_events:
  "encryptKeyForOtherParticipants ext s =
     (fst (encryptKeyForOtherParticipants_steps ext s),
      map fst (snd (encryptKeyForOtherParticipants_steps ext s)))"
  by (simp add: encryptKeyForOtherParticipants_def encryptKeyForOtherParticipants_steps_def
                comp_def split: sum.splits)

lemma createGroupKey_steps_events:
  "createGroupKey ext s =
     (fst (createGroupKey_steps ext s), fst (snd (createGroupKey_steps ext s)),
      map fst (snd (snd (createGroupKey_steps ext s))))"
  by (simp add: createGroupKey_def createGroupKey_steps_def Let_def
                encryptKeyForOtherParticipants_steps_events [of ext]
           split: sum.splits prod.splits)

lemma handleMetadataChanged_steps_events:
  "handleMetadataChanged ext s =
     (fst (handleMetadataChanged_steps ext s), map fst (snd (handleMetadataChanged_steps ext s)))"
proof (cases "getMetadata s")
  case None
  then show ?thesis
    by (simp add: handleMetadataChanged_def handleMetadataChanged_steps_def)
next
  case (Some md)
  obtain r s2 steps where c: "createGroupKey_steps ext (discardKey s) = (r, s2, steps)"
    by (cases "createGroupKey_steps ext (discardKey s)") auto
  then have c': "createGroupKey ext (discardKey s) = (r, s2, map fst steps)"
    by (simp add: createGroupKey_steps_events [of ext "discardKey s"])
  show ?thesis
    using Some c c'
    by (auto simp: handleMetadataChanged_def handleMetadataChanged_steps_def Let_def
                   requestGroupKey_def
             split: sum.splits prod.splits)
qed


text \<open>
  C6 fails on the code as to the order. In a fresh encrypted room the second
  \<open>keyChanged\<close> is emitted once \<open>createGroupKey\<close> has resolved, which is after the
  participants query and after \<open>encryptForParticipant\<close> has been called for each
  participant, not before.
\<close>

theorem fresh_room_key_creation_order_counterexample:
  "snd (handleMetadataChanged demo_externals demo_fresh_room) =
     [Emit KeyChanged, Post_setRoomKeyID ''room1'' ''kkkkkkkkkkkk'',
      Get_usersOfRoomWithoutKey ''room1'', Call_encryptForParticipant alice,
      Call_encryptForParticipant bob, Emit KeyChanged] \<and>
   snd (handleMetadataChanged demo_externals demo_fresh_room) \<noteq>
     [Emit KeyChanged, Post_setRoomKeyID ''room1'' ''kkkkkkkkkkkk'', Emit KeyChanged,
      Get_usersOfRoomWithoutKey ''room1'', Call_encryptForParticipant alice,
      Call_encryptForParticipant bob]"
  by code_simp

text \<open>
  C6, as the code has it. In a fresh encrypted room (metadata present, no wrapped key,
  no room key id), when every call succeeds, the client discards its key and emits
  \<open>keyChanged\<close>, generates a key, derives its key id, posts \<open>e2e.setRoomKeyID\<close> with that
  key id while it is still keyless, adopts the key, queries the participants without key
  and calls \<open>encryptForParticipant\<close> for exactly the participants returned, in order,
  all of it on the adopted state, and then emits \<open>keyChanged\<close>. \<open>e2e.setRoomKeyID\<close> is
  posted exactly once.
\<close>

theorem fresh_room_key_creation:
  assumes md: "getMetadata s = Some md"
    and no_wrapped: "\<not> truthy (encryptedKey md)"
    and no_id: "\<not> truthy (roomKeyID md)"
    and gen: "generateAESKey ext = Inr k"
    and exp: "exportJWKKey ext k = Inr jwk"
    and kid: "kid = extractEncryptedKeyId (base64_encode_string ext (json_stringify ext jwk))"
    and post: "post_setRoomKeyID ext (rid s) kid = Inr ()"
    and users: "get_usersOfRoomWithoutKey ext (rid s) = Inr users"
    and adopted: "adopted = s\<lparr>key := Some k, keyID := Some kid,
                              sessionKeyExportedString := Some (json_stringify ext jwk)\<rparr>"
  shows "handleMetadataChanged_steps ext s =
           (adopted,
            [(Emit KeyChanged, discardKey s),
             (Post_setRoomKeyID (rid s) kid, discardKey s),
             (Get_usersOfRoomWithoutKey (rid s), adopted)]
              @ map (\<lambda>user. (Call_encryptForParticipant user, adopted)) users
              @ [(Emit KeyChanged, adopted)]) \<and>
         handleMetadataChanged ext s =
           (adopted,
            [Emit KeyChanged, Post_setRoomKeyID (rid s) kid, Get_usersOfRoomWithoutKey (rid s)]
              @ map Call_encryptForParticipant users @ [Emit KeyChanged]) \<and>
         filter is_setRoomKeyID (snd (handleMetadataChanged ext s))
           = [Post_setRoomKeyID (rid s) kid] \<and>
         keyless (discardKey s) \<and> keyed adopted"
proof -
  have no_reuse: "\<not> (truthy (getKeyID s) \<and> getKey s \<noteq> None \<and> getKeyID s = roomKeyID md)"
    using no_id by auto
  have ad: "(discardKey s)\<lparr>key := Some k, keyID := Some kid,
              sessionKeyExportedString := Some (json_stringify ext jwk)\<rparr> = adopted"
    by (simp add: adopted discardKey_def)
  have c: "createGroupKey_steps ext (discardKey s) =
             (Inr (), adopted,
              (Post_setRoomKeyID (rid s) kid, discardKey s)
                # (Get_usersOfRoomWithoutKey (rid s), adopted)
                # map (\<lambda>user. (Call_encryptForParticipant user, adopted)) users)"
    using gen exp post users ad
    by (simp add: createGroupKey_steps_def encryptKeyForOtherParticipants_steps_def
                  discardKey_rid Let_def adopted
             flip: kid)
  have h: "handleMetadataChanged_steps ext s =
           (adopted,
            [(Emit KeyChanged, discardKey s),
             (Post_setRoomKeyID (rid s) kid, discardKey s),
             (Get_usersOfRoomWithoutKey (rid s), adopted)]
              @ map (\<lambda>user. (Call_encryptForParticipant user, adopted)) users
              @ [(Emit KeyChanged, adopted)])"
    using md no_wrapped no_id no_reuse c by (simp add: handleMetadataChanged_steps_def Let_def)
  have e: "handleMetadataChanged ext s =
           (adopted,
            [Emit KeyChanged, Post_setRoomKeyID (rid s) kid, Get_usersOfRoomWithoutKey (rid s)]
              @ map Call_encryptForParticipant users @ [Emit KeyChanged])"
    by (simp add: handleMetadataChanged_steps_events [of ext s] h comp_def)
  have f: "filter is_setRoomKeyID (map Call_encryptForParticipant users) = []"
    by (induction users) simp_all
  have g: "keyed adopted"
    by (simp add: keyed_def adopted)
  show ?thesis
    using h e f g by (simp add: discardKey_keyless)
qed

theorem fresh_room_key_creation_witness:
  "getMetadata demo_fresh_room = Some demo_fresh_metadata \<and>
   \<not> truthy (encryptedKey demo_fresh_metadata) \<and> \<not> truthy (roomKeyID demo_fresh_metadata) \<and>
   generateAESKey demo_externals = Inr (CryptoKey 14) \<and>
   exportJWKKey demo_externals (CryptoKey 14) = Inr (EJString ''kkkkkkkkkkkkkk'') \<and>
   ''kkkkkkkkkkkk'' = extractEncryptedKeyId (base64_encode_string demo_externals
                        (json_stringify demo_externals (EJString ''kkkkkkkkkkkkkk''))) \<and>
   post_setRoomKeyID demo_externals (rid demo_fresh_room) ''kkkkkkkkkkkk'' = Inr () \<and>
   get_usersOfRoomWithoutKey demo_externals (rid demo_fresh_room) = Inr [alice, bob] \<and>
   demo_created_room =
     demo_fresh_room\<lparr>key := Some (CryptoKey 14), keyID := Some ''kkkkkkkkkkkk'',
        sessionKeyExportedString :=
          Some (json_stringify demo_externals (EJString ''kkkkkkkkkkkkkk''))\<rparr> \<and>
   handleMetadataChanged_steps demo_externals demo_fresh_room =
     (demo_created_room,
      [(Emit KeyChanged, discardKey demo_fresh_room),
       (Post_setRoomKeyID ''room1'' ''kkkkkkkkkkkk'', discardKey demo_fresh_room),
       (Get_usersOfRoomWithoutKey ''room1'', demo_created_room),
       (Call_encryptForParticipant alice, demo_created_room),
       (Call_encryptForParticipant bob, demo_created_room),
       (Emit KeyChanged, demo_created_room)]) \<and>
   handleMetadataChanged demo_externals demo_fresh_room =
     (demo_created_room,
      [Emit KeyChanged, Post_setRoomKeyID ''room1'' ''kkkkkkkkkkkk'',
       Get_usersOfRoomWithoutKey ''room1'', Call_encryptForParticipant alice,
       Call_encryptForParticipant bob, Emit KeyChanged]) \<and>
   filter is_setRoomKeyID (snd (handleMetadataChanged demo_externals demo_fresh_room))
     = [Post_setRoomKeyID ''room1'' ''kkkkkkkkkkkk''] \<and>
   keyless (discardKey demo_fresh_room) \<and> keyed demo_created_room"
proof -
  have a: "getMetadata demo_fresh_room = Some demo_fresh_metadata"
    by (simp add: getMetadata_def demo_fresh_room_def)
  have b: "\<not> truthy (encryptedKey demo_fresh_metadata)" "\<not> truthy (roomKeyID demo_fresh_metadata)"
    by (simp_all add: demo_fresh_metadata_def)
  have c: "generateAESKey demo_externals = Inr (CryptoKey 14)"
    by (simp add: demo_externals_def)
  have d: "exportJWKKey demo_externals (CryptoKey 14) = Inr (EJString ''kkkkkkkkkkkkkk'')"
    by code_simp
  have e: "''kkkkkkkkkkkk'' = extractEncryptedKeyId (base64_encode_string demo_externals
                        (json_stringify demo_externals (EJString ''kkkkkkkkkkkkkk'')))"
    by code_simp
  have f: "post_setRoomKeyID demo_externals (rid demo_fresh_room) ''kkkkkkkkkkkk'' = Inr ()"
    by (simp add: demo_externals_def)
  have g: "get_usersOfRoomWithoutKey demo_externals (rid demo_fresh_room) = Inr [alice, bob]"
    by (simp add: demo_externals_def)
  have r: "rid demo_fresh_room = ''room1''"
    by (simp add: demo_fresh_room_def demo_client_def new_client_def)
  have j: "demo_created_room =
     demo_fresh_room\<lparr>key := Some (CryptoKey 14), keyID := Some ''kkkkkkkkkkkk'',
        sessionKeyExportedString :=
          Some (json_stringify demo_externals (EJString ''kkkkkkkkkkkkkk''))\<rparr>"
    by (simp add: demo_created_room_def demo_externals_def)
  note t = fresh_room_key_creation [OF a b c d e f g j]
  from t have t1: "handleMetadataChanged_steps demo_externals demo_fresh_room =
     (demo_created_room,
      [(Emit KeyChanged, discardKey demo_fresh_room),
       (Post_setRoomKeyID ''room1'' ''kkkkkkkkkkkk'', discardKey demo_fresh_room),
       (Get_usersOfRoomWithoutKey ''room1'', demo_created_room),
       (Call_encryptForParticipant alice, demo_created_room),
       (Call_encryptForParticipant bob, demo_created_room),
       (Emit KeyChanged, demo_created_room)])"
    by (simp add: r)
  from t have t2: "handleMetadataChanged demo_externals demo_fresh_room =
     (demo_created_room,
      [Emit KeyChanged, Post_setRoomKeyID ''room1'' ''kkkkkkkkkkkk'',
       Get_usersOfRoomWithoutKey ''room1'', Call_encryptForParticipant alice,
       Call_encryptForParticipant bob, Emit KeyChanged])"
    by (simp add: r)
  have t3: "filter is_setRoomKeyID (snd (handleMetadataChanged demo_externals demo_fresh_room))
     = [Post_setRoomKeyID ''room1'' ''kkkkkkkkkkkk'']"
    by (simp add: t2)
  from t have t4: "keyless (discardKey demo_fresh_room)" "keyed demo_created_room"
    by blast+
  from a b c d e f g j t1 t2 t3 t4 show ?thesis by blast
qed


subsection \<open>Messages\<close>

text \<open>
  C7. \<open>decryptMessage\<close> returns a message unchanged when its type is not \<open>e2e\<close> or its
  \<open>e2e\<close> status is \<open>done\<close>; without \<open>waitForKey\<close> it also returns it unchanged when the
  key or the key id is missing; and with a key or key id missing it never rejects.
\<close>

theorem decryptMessage_pass_through:
  "(msg_t m \<noteq> Some ''e2e'' \<or> msg_e2e m = Some ''done''
      \<longrightarrow> decryptMessage ext s m w = Returned m) \<and>
   (getKey s = None \<or> \<not> truthy (getKeyID s)
      \<longrightarrow> decryptMessage ext s m False = Returned m \<and> decryptMessage ext s m w \<noteq> Rejected e)"
  by (cases "key s"; cases "keyID s")
     (auto simp: decryptMessage_def decryptMessage_with_def fetchKey_def fetchKeyID_def
                 getKey_def getKeyID_def)

theorem decryptMessage_pass_through_witness:
  "msg_t demo_plain_message \<noteq> Some ''e2e'' \<and>
   decryptMessage demo_externals demo_keyed_room demo_plain_message False = Returned demo_plain_message \<and>
   getKey demo_wrapped_room = None \<and>
   decryptMessage demo_externals demo_wrapped_room demo_pending_message False
     = Returned demo_pending_message \<and>
   decryptMessage demo_externals demo_wrapped_room demo_pending_message True = Suspended"
proof -
  have a: "msg_t demo_plain_message \<noteq> Some ''e2e''"
    by (simp add: demo_plain_message_def)
  have b: "getKey demo_wrapped_room = None"
    by (simp add: getKey_def demo_wrapped_room_def demo_client_def new_client_def)
  have c: "decryptMessage demo_externals demo_wrapped_room demo_pending_message True = Suspended"
    by (simp add: decryptMessage_def fetchKey_def b demo_pending_message_def)
  from decryptMessage_pass_through [of demo_plain_message demo_externals demo_keyed_room False]
       decryptMessage_pass_through [of demo_pending_message demo_externals demo_wrapped_room False]
       a b c
  show ?thesis by simp
qed

text \<open>
  C8. \<open>encryptMessage\<close> returns the message unchanged when the metadata says that
  encryption is not required, and when the message is of type \<open>e2e\<close> already, whatever
  the key state and the collaborators.
\<close>

theorem encryptMessage_pass_through:
  "(getMetadata s = Some md \<and> \<not> encryptionRequired md
      \<longrightarrow> encryptMessage ext vector s m = Returned m) \<and>
   (msg_t m = Some ''e2e'' \<longrightarrow> encryptMessage ext vector s m = Returned m)"
  by (auto simp: encryptMessage_def split: option.splits)

theorem encryptMessage_pass_through_witness:
  "getMetadata demo_unencrypted_room
     = Some (demo_wrapped_metadata\<lparr>encryptionRequired := False\<rparr>) \<and>
   \<not> encryptionRequired (demo_wrapped_metadata\<lparr>encryptionRequired := False\<rparr>) \<and>
   encryptMessage demo_externals demo_vector demo_unencrypted_room demo_plain_message
     = Returned demo_plain_message \<and>
   msg_t demo_pending_message = Some ''e2e'' \<and>
   encryptMessage demo_externals demo_vector demo_keyed_room demo_pending_message
     = Returned demo_pending_message"
proof -
  have a: "getMetadata demo_unencrypted_room
     = Some (demo_wrapped_metadata\<lparr>encryptionRequired := False\<rparr>)"
    by (simp add: getMetadata_def demo_unencrypted_room_def)
  have b: "\<not> encryptionRequired (demo_wrapped_metadata\<lparr>encryptionRequired := False\<rparr>)"
    by simp
  have c: "msg_t demo_pending_message = Some ''e2e''"
    by (simp add: demo_pending_message_def)
  from encryptMessage_pass_through
         [of demo_unencrypted_room "demo_wrapped_metadata\<lparr>encryptionRequired := False\<rparr>"
             demo_externals demo_vector demo_plain_message]
       encryptMessage_pass_through
         [of demo_keyed_room _ demo_externals demo_vector demo_pending_message]
       a b c
  show ?thesis by simp
qed

text \<open>
  C10. When \<open>decryptMessage\<close> decrypts a message (type \<open>e2e\<close>, not \<open>done\<close>, key and key
  id held, \<open>Cipher.decrypt\<close> returns an object whose \<open>text\<close> is a string), it resolves
  with the input in which \<open>msg\<close> is that text and \<open>e2e\<close> is \<open>done\<close>: \<open>_id\<close>, \<open>t\<close> and
  every other field are those of the input.
\<close>

theorem decryptMessage_frame:
  assumes e2e: "msg_t m = Some ''e2e''" "msg_e2e m \<noteq> Some ''done''"
    and held: "getKey s = Some k" "getKeyID s = Some kid" "kid \<noteq> []"
    and dec: "decrypt ext (msg_msg m) k kid = Inr data"
    and plain: "property ''text'' data = Some (EJString plaintext)"
  shows "\<exists>m'. decryptMessage ext s m w = Returned m' \<and>
              m' = m\<lparr>msg_msg := plaintext, msg_e2e := Some ''done''\<rparr> \<and>
              msg_msg m' = plaintext \<and> msg_e2e m' = Some ''done'' \<and>
              msg_id m' = msg_id m \<and> msg_t m' = msg_t m \<and> message.more m' = message.more m"
  using assms
  by (simp add: decryptMessage_def decryptMessage_with_def fetchKey_def fetchKeyID_def)

lemma demo_decrypt: "decrypt demo_externals demo_ciphertext (CryptoKey 2) demo_keyID
          = Inr (message_object demo_message)"
proof -
  have shape: "isEncryptableMessage (message_object demo_message)"
    by (simp add: message_object_def)
  have body: "extractEncryptedBody demo_externals demo_ciphertext =
     Inr (demo_vector @ demo_shift (CryptoKey 2) (demo_to_bytes (demo_stringify (message_object demo_message))))"
    by (simp add: extractEncryptedBody_def demo_ciphertext_def demo_keyID_def demo_externals_def
        demo_string_bytes)
  have kid: "extractEncryptedKeyId demo_ciphertext = demo_keyID"
    by (simp add: extractEncryptedKeyId_def demo_ciphertext_def demo_keyID_def)
  show ?thesis
    unfolding decrypt_def kid body
    by (simp add: splitVectorAndEncryptedData_def demo_vector_def
         demo_externals_def demo_unshift_shift demo_bytes_string demo_parse_stringify shape
         del: demo_shift.simps demo_unshift.simps)
qed

theorem decryptMessage_frame_witness:
  "msg_t demo_pending_message = Some ''e2e'' \<and> msg_e2e demo_pending_message \<noteq> Some ''done'' \<and>
   getKey demo_keyed_room = Some (CryptoKey 2) \<and> getKeyID demo_keyed_room = Some demo_keyID \<and>
   demo_keyID \<noteq> [] \<and>
   decrypt demo_externals (msg_msg demo_pending_message) (CryptoKey 2) demo_keyID
     = Inr (message_object demo_message) \<and>
   property ''text'' (message_object demo_message) = Some (EJString ''hi'') \<and>
   decryptMessage demo_externals demo_keyed_room demo_pending_message False
     = Returned \<lparr>msg_id = ''m1'', msg_t = Some ''e2e'', msg_e2e = Some ''done'',
                 msg_msg = ''hi'', \<dots> = ''rid: room1''\<rparr>"
proof -
  have a: "msg_t demo_pending_message = Some ''e2e''" "msg_e2e demo_pending_message \<noteq> Some ''done''"
    by (simp_all add: demo_pending_message_def)
  have b: "getKey demo_keyed_room = Some (CryptoKey 2)" "getKeyID demo_keyed_room = Some demo_keyID"
          "demo_keyID \<noteq> []"
    by (simp_all add: getKey_def getKeyID_def demo_keyed_room_def demo_keyID_def)
  from demo_decrypt have c: "decrypt demo_externals (msg_msg demo_pending_message) (CryptoKey 2) demo_keyID
     = Inr (message_object demo_message)"
    by (simp add: demo_pending_message_def)
  have d: "property ''text'' (message_object demo_message) = Some (EJString ''hi'')"
    by (simp add: message_object_def demo_message_def)
  from decryptMessage_frame [OF a b c d, of False] a b c d
  show ?thesis by (simp add: demo_pending_message_def)
qed


subsection \<open>The metadata observer\<close>

lemma isShallowEqual_trans:
  "isShallowEqual a b \<Longrightarrow> isShallowEqual b c \<Longrightarrow> isShallowEqual a c"
  by (cases a; cases b; cases c) auto

lemma autorun_callback_changed:
  "\<not> isShallowEqual (metadata s) a \<Longrightarrow>
     autorun_callback ext s a =
       (fst (handleMetadataChanged ext (s\<lparr>metadata := a\<rparr>)),
        Emit MetadataChanged # snd (handleMetadataChanged ext (s\<lparr>metadata := a\<rparr>)))"
  by (cases "handleMetadataChanged ext (s\<lparr>metadata := a\<rparr>)")
     (simp add: autorun_callback_def emit_metadataChanged_def)


text \<open>
  C9 fails on the code when the first snapshot of the pair is itself shallow-equal to
  the metadata the client holds. The client that has created its key holds
  \<open>demo_fresh_metadata\<close>; fed that snapshot twice more, it emits nothing and its handler
  does not run. A new client fed two absent snapshots does nothing either.
\<close>

theorem equal_snapshot_handler_runs_counterexample:
  "isShallowEqual (Some demo_fresh_metadata) (Some demo_fresh_metadata) \<and>
   metadata demo_created_room = Some demo_fresh_metadata \<and>
   fst (autorun_callback demo_externals demo_client (Some demo_fresh_metadata)) = demo_created_room \<and>
   autorun_runs demo_externals demo_created_room
     [Some demo_fresh_metadata, Some demo_fresh_metadata] = (demo_created_room, []) \<and>
   count_list (snd (autorun_runs demo_externals demo_created_room
                      [Some demo_fresh_metadata, Some demo_fresh_metadata]))
     (Emit MetadataChanged) = 0 \<and>
   isShallowEqual None None \<and>
   autorun_runs demo_externals demo_client [None, None] = (demo_client, [])"
  by code_simp

text \<open>
  C9, as the code has it. Of two consecutive snapshots that are shallow-equal, the
  second changes nothing and emits nothing. When the first is not shallow-equal to the
  metadata held, the two together make one emission of \<open>metadataChanged\<close> followed by one
  run of \<open>handleMetadataChanged\<close> on the state holding the first snapshot, and nothing
  else; when the first is shallow-equal to the metadata held, the two together do
  nothing.
\<close>

theorem equal_snapshot_suppressed:
  assumes eq: "isShallowEqual a b"
  shows "(\<not> isShallowEqual (metadata s) a \<longrightarrow>
            autorun_runs ext s [a, b] =
              (fst (handleMetadataChanged ext (s\<lparr>metadata := a\<rparr>)),
               Emit MetadataChanged # snd (handleMetadataChanged ext (s\<lparr>metadata := a\<rparr>))) \<and>
            count_list (snd (autorun_runs ext s [a, b])) (Emit MetadataChanged) = 1) \<and>
         (isShallowEqual (metadata s) a \<longrightarrow> autorun_runs ext s [a, b] = (s, [])) \<and>
         autorun_callback ext (fst (autorun_callback ext s a)) b
           = (fst (autorun_callback ext s a), [])"
proof (intro conjI impI)
  assume changed: "\<not> isShallowEqual (metadata s) a"
  let ?t = "fst (handleMetadataChanged ext (s\<lparr>metadata := a\<rparr>))"
  let ?evs = "snd (handleMetadataChanged ext (s\<lparr>metadata := a\<rparr>))"
  have first: "autorun_callback ext s a = (?t, Emit MetadataChanged # ?evs)"
    using changed by (rule autorun_callback_changed)
  have "metadata ?t = a"
    using handleMetadataChanged_metadata [of ext "s\<lparr>metadata := a\<rparr>"] by simp
  then have second: "autorun_callback ext ?t b = (?t, [])"
    using eq by (simp add: autorun_callback_def)
  show runs: "autorun_runs ext s [a, b] = (?t, Emit MetadataChanged # ?evs)"
    by (simp add: first second)
  have "count_list ?evs (Emit MetadataChanged) = 0"
    using handleMetadataChanged_no_metadataChanged [of ext "s\<lparr>metadata := a\<rparr>"]
    by (simp add: count_list_0_iff)
  then show "count_list (snd (autorun_runs ext s [a, b])) (Emit MetadataChanged) = 1"
    unfolding runs by simp
next
  assume held: "isShallowEqual (metadata s) a"
  then have first: "autorun_callback ext s a = (s, [])"
    by (simp add: autorun_callback_def)
  from held eq have "isShallowEqual (metadata s) b"
    by (rule isShallowEqual_trans)
  then have second: "autorun_callback ext s b = (s, [])"
    by (simp add: autorun_callback_def)
  show "autorun_runs ext s [a, b] = (s, [])"
    by (simp add: first second)
next
  show "autorun_callback ext (fst (autorun_callback ext s a)) b
           = (fst (autorun_callback ext s a), [])"
  proof (cases "isShallowEqual (metadata s) a")
    case True
    then have first: "autorun_callback ext s a = (s, [])"
      by (simp add: autorun_callback_def)
    from True eq have "isShallowEqual (metadata s) b"
      by (rule isShallowEqual_trans)
    then have "autorun_callback ext s b = (s, [])"
      by (simp add: autorun_callback_def)
    then show ?thesis
      unfolding first by simp
  next
    case False
    let ?t = "fst (handleMetadataChanged ext (s\<lparr>metadata := a\<rparr>))"
    have first: "fst (autorun_callback ext s a) = ?t"
      by (simp add: autorun_callback_changed [OF False])
    have "metadata ?t = a"
      using handleMetadataChanged_metadata [of ext "s\<lparr>metadata := a\<rparr>"] by simp
    then have "autorun_callback ext ?t b = (?t, [])"
      using eq by (simp add: autorun_callback_def)
    then show ?thesis
      unfolding first .
  qed
qed

theorem equal_snapshot_suppressed_witness:
  "isShallowEqual (Some demo_fresh_metadata) (Some demo_fresh_metadata) \<and>
   \<not> isShallowEqual (metadata demo_client) (Some demo_fresh_metadata) \<and>
   autorun_runs demo_externals demo_client [Some demo_fresh_metadata, Some demo_fresh_metadata] =
     (fst (handleMetadataChanged demo_externals demo_fresh_room),
      Emit MetadataChanged # snd (handleMetadataChanged demo_externals demo_fresh_room)) \<and>
   count_list (snd (autorun_runs demo_externals demo_client
                      [Some demo_fresh_metadata, Some demo_fresh_metadata]))
     (Emit MetadataChanged) = 1 \<and>
   isShallowEqual (metadata demo_created_room) (Some demo_fresh_metadata) \<and>
   autorun_runs demo_externals demo_created_room
     [Some demo_fresh_metadata, Some demo_fresh_metadata] = (demo_created_room, [])"
proof -
  have a: "isShallowEqual (Some demo_fresh_metadata) (Some demo_fresh_metadata)"
    by simp
  have b: "\<not> isShallowEqual (metadata demo_client) (Some demo_fresh_metadata)"
    by (simp add: demo_client_def new_client_def)
  have c: "isShallowEqual (metadata demo_created_room) (Some demo_fresh_metadata)"
    by (simp add: demo_created_room_def demo_fresh_room_def)
  have d: "demo_client\<lparr>metadata := Some demo_fresh_metadata\<rparr> = demo_fresh_room"
    by (simp add: demo_fresh_room_def)
  note fresh = equal_snapshot_suppressed [OF a, of demo_client demo_externals]
  note held = equal_snapshot_suppressed [OF a, of demo_created_room demo_externals]
  from fresh b have e:
    "autorun_runs demo_externals demo_client [Some demo_fresh_metadata, Some demo_fresh_metadata] =
     (fst (handleMetadataChanged demo_externals demo_fresh_room),
      Emit MetadataChanged # snd (handleMetadataChanged demo_externals demo_fresh_room))"
    "count_list (snd (autorun_runs demo_externals demo_client
                      [Some demo_fresh_metadata, Some demo_fresh_metadata]))
     (Emit MetadataChanged) = 1"
    unfolding d by blast+
  from held c have f: "autorun_runs demo_externals demo_created_room
     [Some demo_fresh_metadata, Some demo_fresh_metadata] = (demo_created_room, [])"
    by blast
  from a b c e f show ?thesis by blast
qed

end
